theory Spec2Isabelle
  imports Complex_Main
begin

section \<open>ESG score versus annual return: the notebook's pipeline\<close>

text \<open>
  The repository is one notebook, \<^verbatim>\<open>term_project.ipynb\<close>. Its code cells load two tables,
  derive a return per company from two dated price rows, join the returns with the ESG
  table, coerce three columns to numbers, summarise the return column and run one Pearson
  correlation test. The definitions below follow the cells in their order.
\<close>

subsection \<open>Column values\<close>

text \<open>
  A numeric cell is a 64-bit float. The model keeps the special values of the format:
  \<open>NaN\<close>, which pandas reads as "missing", the two infinities and the two zeros, with the
  rules by which the arithmetic produces them. \<open>Fin 0\<close> is the positive zero \<^verbatim>\<open>0.0\<close> and
  \<open>NZero\<close> the negative zero \<^verbatim>\<open>-0.0\<close>; the two compare equal and differ in what a division
  by them gives. Any other finite value is a non-zero real number and finite arithmetic
  is exact, so rounding, overflow and underflow of finite results are not modelled.
\<close>

datatype float64 = Fin real | NZero | PInf | NInf | NaN

text \<open>The sign bit (\<^verbatim>\<open>np.signbit\<close>); the sign of a NaN is not modelled.\<close>

fun signbit :: "float64 \<Rightarrow> bool" where
  "signbit (Fin a) = (a < 0)"
| "signbit NZero = True"
| "signbit PInf = False"
| "signbit NInf = True"
| "signbit NaN = False"

text \<open>
  \<^verbatim>\<open>a / b\<close> on numpy floats: division by a zero gives an infinity or NaN, never an
  exception. The sign of the result is the product of the two signs.
\<close>

fun fdiv :: "float64 \<Rightarrow> float64 \<Rightarrow> float64" where
  "fdiv NaN _ = NaN"
| "fdiv _ NaN = NaN"
| "fdiv (Fin a) (Fin b) =
     (if b = 0 then (if a = 0 then NaN else if 0 < a then PInf else NInf)
      else if a = 0 \<and> b < 0 then NZero
      else Fin (a / b))"
| "fdiv (Fin a) NZero = (if a = 0 then NaN else if 0 < a then NInf else PInf)"
| "fdiv NZero (Fin b) = (if b = 0 then NaN else if 0 < b then NZero else Fin 0)"
| "fdiv NZero NZero = NaN"
| "fdiv (Fin a) PInf = (if a < 0 then NZero else Fin 0)"
| "fdiv (Fin a) NInf = (if a < 0 then Fin 0 else NZero)"
| "fdiv NZero PInf = NZero"
| "fdiv NZero NInf = Fin 0"
| "fdiv PInf (Fin b) = (if 0 \<le> b then PInf else NInf)"
| "fdiv PInf NZero = NInf"
| "fdiv NInf (Fin b) = (if 0 \<le> b then NInf else PInf)"
| "fdiv NInf NZero = PInf"
| "fdiv PInf PInf = NaN"
| "fdiv PInf NInf = NaN"
| "fdiv NInf PInf = NaN"
| "fdiv NInf NInf = NaN"

fun fadd :: "float64 \<Rightarrow> float64 \<Rightarrow> float64" where
  "fadd NaN _ = NaN"
| "fadd _ NaN = NaN"
| "fadd (Fin a) (Fin b) = Fin (a + b)"
| "fadd (Fin a) NZero = Fin a"
| "fadd NZero (Fin b) = Fin b"
| "fadd NZero NZero = NZero"
| "fadd (Fin a) PInf = PInf"
| "fadd NZero PInf = PInf"
| "fadd (Fin a) NInf = NInf"
| "fadd NZero NInf = NInf"
| "fadd PInf (Fin b) = PInf"
| "fadd PInf NZero = PInf"
| "fadd NInf (Fin b) = NInf"
| "fadd NInf NZero = NInf"
| "fadd PInf PInf = PInf"
| "fadd NInf NInf = NInf"
| "fadd PInf NInf = NaN"
| "fadd NInf PInf = NaN"

fun fneg :: "float64 \<Rightarrow> float64" where
  "fneg NaN = NaN"
| "fneg (Fin a) = (if a = 0 then NZero else Fin (- a))"
| "fneg NZero = Fin 0"
| "fneg PInf = NInf"
| "fneg NInf = PInf"

definition fsub :: "float64 \<Rightarrow> float64 \<Rightarrow> float64" where
  "fsub a b = fadd a (fneg b)"

fun fmul :: "float64 \<Rightarrow> float64 \<Rightarrow> float64" where
  "fmul NaN _ = NaN"
| "fmul _ NaN = NaN"
| "fmul (Fin a) (Fin b) = (if a * b = 0 \<and> (a < 0) \<noteq> (b < 0) then NZero else Fin (a * b))"
| "fmul (Fin a) NZero = (if a < 0 then Fin 0 else NZero)"
| "fmul NZero (Fin b) = (if b < 0 then Fin 0 else NZero)"
| "fmul NZero NZero = Fin 0"
| "fmul (Fin a) PInf = (if a = 0 then NaN else if 0 < a then PInf else NInf)"
| "fmul (Fin a) NInf = (if a = 0 then NaN else if 0 < a then NInf else PInf)"
| "fmul PInf (Fin b) = (if b = 0 then NaN else if 0 < b then PInf else NInf)"
| "fmul NInf (Fin b) = (if b = 0 then NaN else if 0 < b then NInf else PInf)"
| "fmul NZero PInf = NaN"
| "fmul NZero NInf = NaN"
| "fmul PInf NZero = NaN"
| "fmul NInf NZero = NaN"
| "fmul PInf PInf = PInf"
| "fmul NInf NInf = PInf"
| "fmul PInf NInf = NInf"
| "fmul NInf PInf = NInf"

fun fsqrt :: "float64 \<Rightarrow> float64" where
  "fsqrt NaN = NaN"
| "fsqrt (Fin a) = (if a < 0 then NaN else Fin (sqrt a))"
| "fsqrt NZero = NZero"
| "fsqrt PInf = PInf"
| "fsqrt NInf = NaN"

text \<open>Comparisons: every comparison with NaN is false, and the two zeros are equal.\<close>

fun fle :: "float64 \<Rightarrow> float64 \<Rightarrow> bool" where
  "fle NaN _ = False"
| "fle _ NaN = False"
| "fle NInf _ = True"
| "fle _ PInf = True"
| "fle (Fin a) (Fin b) = (a \<le> b)"
| "fle (Fin a) NZero = (a \<le> 0)"
| "fle NZero (Fin b) = (0 \<le> b)"
| "fle NZero NZero = True"
| "fle (Fin a) NInf = False"
| "fle NZero NInf = False"
| "fle PInf (Fin b) = False"
| "fle PInf NZero = False"
| "fle PInf NInf = False"

definition feq :: "float64 \<Rightarrow> float64 \<Rightarrow> bool" where
  "feq a b = (fle a b \<and> fle b a)"

definition isna :: "float64 \<Rightarrow> bool" where
  "isna x = (x = NaN)"

definition fsum :: "float64 list \<Rightarrow> float64" where
  "fsum xs = foldl fadd (Fin 0) xs"

subsection \<open>Errors\<close>

text \<open>
  The exceptions the cells can raise: \<^verbatim>\<open>IndexError\<close> from \<^verbatim>\<open>.iloc[0]\<close> on an empty selection,
  \<^verbatim>\<open>ValueError\<close> from a strict numeric conversion and from the correlation routine.
\<close>

datatype py_error = IndexError | ValueError

subsection \<open>The price table and the return calculator\<close>

text \<open>
  \<^verbatim>\<open>df_prices\<close> has a \<^verbatim>\<open>Date\<close> column first and one price column per company. A row is its
  date and its prices, in the order of \<open>symbols\<close>; a data frame is rectangular, so every
  row has as many prices as there are symbols. A date is (year, month, day).
\<close>

type_synonym date = "nat \<times> nat \<times> nat"

record prices_frame =
  symbols :: "string list"
  rows :: "(date \<times> float64 list) list"

text \<open>Every table other than the price table is keyed by the company's \<^verbatim>\<open>Symbol\<close>.\<close>

record keyed =
  Symbol :: string

record return_record = keyed +
  StartPrice :: float64
  EndPrice :: float64
  AnnualReturn :: float64

text \<open>\<^verbatim>\<open>df_prices[df_prices["Date"] == d]\<close>: the rows whose date is exactly \<open>d\<close>.\<close>

definition select_date :: "prices_frame \<Rightarrow> date \<Rightarrow> (date \<times> float64 list) list" where
  "select_date df d = filter (\<lambda>r. fst r = d) (rows df)"

text \<open>\<^verbatim>\<open>.iloc[0]\<close>: the first row, \<^verbatim>\<open>IndexError\<close> when there is none.\<close>

definition iloc0 :: "'a list \<Rightarrow> py_error + 'a" where
  "iloc0 xs = (case xs of [] \<Rightarrow> Inl IndexError | x # _ \<Rightarrow> Inr x)"

text \<open>\<^verbatim>\<open>annual_return = (end_prices[1:] / start_prices[1:]) - 1\<close>, element by element.\<close>

definition annual_return :: "float64 list \<Rightarrow> float64 list \<Rightarrow> float64 list" where
  "annual_return end_prices start_prices =
     map (\<lambda>(e, s). fsub (fdiv e s) (Fin 1)) (zip end_prices start_prices)"

text \<open>The data frame \<^verbatim>\<open>df_returns\<close> built from the four columns.\<close>

definition df_returns_of :: "string list \<Rightarrow> float64 list \<Rightarrow> float64 list \<Rightarrow> return_record list" where
  "df_returns_of syms start_prices end_prices =
     map (\<lambda>(sym, s, e, a). \<lparr>Symbol = sym, StartPrice = s, EndPrice = e, AnnualReturn = a\<rparr>)
       (zip syms (zip start_prices (zip end_prices (annual_return end_prices start_prices))))"

definition return_calculator :: "prices_frame \<Rightarrow> date \<Rightarrow> date \<Rightarrow> py_error + return_record list" where
  "return_calculator df d_start d_end =
     (case iloc0 (select_date df d_start) of
        Inl err \<Rightarrow> Inl err
      | Inr start_prices \<Rightarrow>
          (case iloc0 (select_date df d_end) of
             Inl err \<Rightarrow> Inl err
           | Inr end_prices \<Rightarrow>
               Inr (df_returns_of (symbols df) (snd start_prices) (snd end_prices))))"

text \<open>The two dates the notebook uses.\<close>

definition start_date :: date where
  "start_date = (2023, 1, 3)"

definition end_date :: date where
  "end_date = (2024, 8, 30)"

definition notebook_returns :: "prices_frame \<Rightarrow> py_error + return_record list" where
  "notebook_returns df = return_calculator df start_date end_date"

text \<open>The two companies of the notebook's introduction, as a price table.\<close>

definition intro_prices :: prices_frame where
  "intro_prices =
     \<lparr>symbols = [''AAPL'', ''TSLA''],
      rows = [((2023, 1, 3), [Fin 150, Fin 800]),
              ((2023, 1, 4), [Fin 151, Fin 790]),
              ((2024, 8, 30), [Fin 160, Fin 810])]\<rparr>"


subsection \<open>The ESG table and the merger/cleaner\<close>

text \<open>
  A column read from a CSV file holds floats or, when some entry did not parse as a
  number, strings (dtype \<^verbatim>\<open>object\<close>). \<^verbatim>\<open>df_esg\<close> has a \<^verbatim>\<open>Symbol\<close> column and a \<^verbatim>\<open>totalEsg\<close>
  column; its other columns are never read.
\<close>

datatype cell = Num float64 | Str string

record esg_record = keyed +
  totalEsg :: cell

text \<open>
  A row of \<^verbatim>\<open>df_final_filtered\<close>: the six projected columns. \<^verbatim>\<open>totalEsg\<close> holds cells
  before the coercion and floats after it.
\<close>

record 'v final_row = return_record +
  PriceDifference :: float64
  totalEsg :: 'v

text \<open>
  \<^verbatim>\<open>df_esg.merge(df_returns, on="Symbol")\<close>: the default \<^verbatim>\<open>how="inner"\<close>. Every pair of a left
  row and a right row with equal keys gives one row, in the order of the left rows.
\<close>

definition merge_on_Symbol ::
    "esg_record list \<Rightarrow> return_record list \<Rightarrow> (esg_record \<times> return_record) list" where
  "merge_on_Symbol left right =
     concat (map (\<lambda>l. map (\<lambda>r. (l, r))
       (filter (\<lambda>r. Symbol r = Symbol l) right)) left)"

text \<open>
  \<^verbatim>\<open>df_final["PriceDifference"] = df_final["EndPrice"] - df_final["StartPrice"]\<close>, then the
  projection to the six columns.
\<close>

definition df_final_filtered_of :: "(esg_record \<times> return_record) list \<Rightarrow> cell final_row list" where
  "df_final_filtered_of df_final =
     map (\<lambda>(l, r).
        \<lparr>Symbol = Symbol l,
         StartPrice = StartPrice r,
         EndPrice = EndPrice r,
         AnnualReturn = AnnualReturn r,
         PriceDifference = fsub (EndPrice r) (StartPrice r),
         totalEsg = esg_record.totalEsg l\<rparr>) df_final"

text \<open>
  \<^verbatim>\<open>pd.to_numeric(series, errors=...)\<close>. A float stays as it is. A string goes through the
  library's number parser, here the parameter \<open>parse\<close>; a string it rejects raises
  \<^verbatim>\<open>ValueError\<close> under \<^verbatim>\<open>errors="raise"\<close> (the default) and becomes NaN under
  \<^verbatim>\<open>errors="coerce"\<close>, which is what the notebook passes.
\<close>

datatype errors_mode = Raise | Coerce

definition to_numeric_cell :: "(string \<Rightarrow> float64 option) \<Rightarrow> errors_mode \<Rightarrow> cell \<Rightarrow> py_error + float64" where
  "to_numeric_cell parse errors c =
     (case c of
        Num x \<Rightarrow> Inr x
      | Str s \<Rightarrow>
          (case parse s of
             Some x \<Rightarrow> Inr x
           | None \<Rightarrow> (case errors of Raise \<Rightarrow> Inl ValueError | Coerce \<Rightarrow> Inr NaN)))"

fun to_numeric :: "(string \<Rightarrow> float64 option) \<Rightarrow> errors_mode \<Rightarrow> cell list \<Rightarrow> py_error + float64 list" where
  "to_numeric parse errors [] = Inr []"
| "to_numeric parse errors (c # cs) =
     (case to_numeric_cell parse errors c of
        Inl err \<Rightarrow> Inl err
      | Inr x \<Rightarrow>
          (case to_numeric parse errors cs of
             Inl err \<Rightarrow> Inl err
           | Inr xs \<Rightarrow> Inr (x # xs)))"

text \<open>
  The three assignments
  \<^verbatim>\<open>df_final_filtered[c] = pd.to_numeric(df_final_filtered[c], errors="coerce")\<close> for
  \<^verbatim>\<open>totalEsg\<close>, \<^verbatim>\<open>AnnualReturn\<close> and \<^verbatim>\<open>PriceDifference\<close>, in this order.
\<close>

definition clean :: "(string \<Rightarrow> float64 option) \<Rightarrow> cell final_row list \<Rightarrow> py_error + float64 final_row list" where
  "clean parse df =
     (case to_numeric parse Coerce (map final_row.totalEsg df) of
        Inl err \<Rightarrow> Inl err
      | Inr esg \<Rightarrow>
     (case to_numeric parse Coerce (map (\<lambda>r. Num (AnnualReturn r)) df) of
        Inl err \<Rightarrow> Inl err
      | Inr ret \<Rightarrow>
     (case to_numeric parse Coerce (map (\<lambda>r. Num (PriceDifference r)) df) of
        Inl err \<Rightarrow> Inl err
      | Inr diff \<Rightarrow>
          Inr (map (\<lambda>(r, t, a, p).
                 \<lparr>Symbol = Symbol r, StartPrice = StartPrice r, EndPrice = EndPrice r,
                  AnnualReturn = a, PriceDifference = p, totalEsg = t\<rparr>)
               (zip df (zip esg (zip ret diff)))))))"

definition merger_cleaner ::
    "(string \<Rightarrow> float64 option) \<Rightarrow> esg_record list \<Rightarrow> return_record list \<Rightarrow> py_error + float64 final_row list" where
  "merger_cleaner parse df_esg df_returns =
     clean parse (df_final_filtered_of (merge_on_Symbol df_esg df_returns))"

text \<open>The cells up to the cleaned table, from the two loaded tables.\<close>

definition pipeline ::
    "(string \<Rightarrow> float64 option) \<Rightarrow> esg_record list \<Rightarrow> prices_frame \<Rightarrow> py_error + float64 final_row list" where
  "pipeline parse df_esg df_prices =
     (case notebook_returns df_prices of
        Inl err \<Rightarrow> Inl err
      | Inr df_returns \<Rightarrow> merger_cleaner parse df_esg df_returns)"

text \<open>
  A parser for plain decimal numerals (an optional sign, digits, an optional fraction).
  It stands for the library's parser in the examples; the theorems hold for every parser.
\<close>

definition is_digit :: "char \<Rightarrow> bool" where
  "is_digit c = (c \<in> set ''0123456789'')"

definition digits_value :: "string \<Rightarrow> nat" where
  "digits_value ds = foldl (\<lambda>acc c. 10 * acc + (of_char c - 48)) 0 ds"

definition parse_unsigned :: "string \<Rightarrow> real option" where
  "parse_unsigned s =
     (let ip = takeWhile is_digit s; rest = dropWhile is_digit s in
      case rest of
        [] \<Rightarrow> if ip = [] then None else Some (real (digits_value ip))
      | c # fp \<Rightarrow>
          if c = CHR ''.'' \<and> list_all is_digit fp \<and> (ip \<noteq> [] \<or> fp \<noteq> [])
          then Some (real (digits_value ip) + real (digits_value fp) / 10 ^ length fp)
          else None)"

definition parse_decimal :: "string \<Rightarrow> float64 option" where
  "parse_decimal s =
     (case s of
        [] \<Rightarrow> None
      | c # cs \<Rightarrow>
          if c = CHR ''-'' then map_option (\<lambda>v. fneg (Fin v)) (parse_unsigned cs)
          else if c = CHR ''+'' then map_option Fin (parse_unsigned cs)
          else map_option Fin (parse_unsigned s))"

text \<open>Example tables: an ESG table with a malformed score, and returns for three companies.\<close>

definition example_esg :: "esg_record list" where
  "example_esg =
     [\<lparr>Symbol = ''AAPL'', esg_record.totalEsg = Str ''17.2''\<rparr>,
      \<lparr>Symbol = ''MSFT'', esg_record.totalEsg = Num (Fin 15)\<rparr>,
      \<lparr>Symbol = ''TSLA'', esg_record.totalEsg = Str ''N/A''\<rparr>]"

definition example_prices :: prices_frame where
  "example_prices =
     \<lparr>symbols = [''AAPL'', ''TSLA'', ''ZERO''],
      rows = [((2023, 1, 3), [Fin 150, Fin 800, Fin 0]),
              ((2024, 8, 30), [Fin 160, Fin 810, Fin 5])]\<rparr>"

definition zero_esg :: "esg_record list" where
  "zero_esg = [\<lparr>Symbol = ''ZERO'', esg_record.totalEsg = Num (Fin 20)\<rparr>]"

text \<open>Two companies whose start prices are the two zeros, \<^verbatim>\<open>0.0\<close> and \<^verbatim>\<open>-0.0\<close>.\<close>

definition signed_zero_prices :: prices_frame where
  "signed_zero_prices =
     \<lparr>symbols = [''ZERO'', ''NEGZ''],
      rows = [((2023, 1, 3), [Fin 0, NZero]),
              ((2024, 8, 30), [Fin 5, Fin 5])]\<rparr>"

definition signed_zero_esg :: "esg_record list" where
  "signed_zero_esg =
     [\<lparr>Symbol = ''ZERO'', esg_record.totalEsg = Num (Fin 20)\<rparr>,
      \<lparr>Symbol = ''NEGZ'', esg_record.totalEsg = Num (Fin 30)\<rparr>]"

text \<open>The float a cell becomes under \<^verbatim>\<open>errors="coerce"\<close>.\<close>

definition coerced :: "(string \<Rightarrow> float64 option) \<Rightarrow> cell \<Rightarrow> float64" where
  "coerced parse c =
     (case c of Num x \<Rightarrow> x | Str s \<Rightarrow> (case parse s of Some x \<Rightarrow> x | None \<Rightarrow> NaN))"

subsection \<open>Descriptive statistics\<close>

text \<open>
  \<^verbatim>\<open>Series.dropna()\<close> removes the missing values; for a float column these are the NaNs
  (an infinity is not missing).
\<close>

definition dropna :: "float64 list \<Rightarrow> float64 list" where
  "dropna xs = filter (\<lambda>x. \<not> isna x) xs"

text \<open>
  The pandas reductions, with their default \<^verbatim>\<open>skipna=True\<close>: each works on the values that
  are not NaN, and gives NaN when none is left.
\<close>

definition pd_count :: "float64 list \<Rightarrow> nat" where
  "pd_count xs = length (dropna xs)"

definition fmin :: "float64 \<Rightarrow> float64 \<Rightarrow> float64" where
  "fmin a b = (if fle b a then b else a)"

definition fmax :: "float64 \<Rightarrow> float64 \<Rightarrow> float64" where
  "fmax a b = (if fle a b then b else a)"

definition pd_min :: "float64 list \<Rightarrow> float64" where
  "pd_min xs = (case dropna xs of [] \<Rightarrow> NaN | y # ys \<Rightarrow> foldl fmin y ys)"

definition pd_max :: "float64 list \<Rightarrow> float64" where
  "pd_max xs = (case dropna xs of [] \<Rightarrow> NaN | y # ys \<Rightarrow> foldl fmax y ys)"

definition pd_mean :: "float64 list \<Rightarrow> float64" where
  "pd_mean xs = (let v = dropna xs in fdiv (fsum v) (Fin (real (length v))))"

fun insort_f :: "float64 \<Rightarrow> float64 list \<Rightarrow> float64 list" where
  "insort_f x [] = [x]"
| "insort_f x (y # ys) = (if fle x y then x # y # ys else y # insort_f x ys)"

definition sort_f :: "float64 list \<Rightarrow> float64 list" where
  "sort_f xs = foldr insort_f xs []"

definition pd_median :: "float64 list \<Rightarrow> float64" where
  "pd_median xs =
     (let v = sort_f (dropna xs); n = length v in
      if n = 0 then NaN
      else if odd n then v ! (n div 2)
      else fdiv (fadd (v ! (n div 2 - 1)) (v ! (n div 2))) (Fin 2))"

text \<open>
  \<^verbatim>\<open>Series.var(ddof)\<close>: the squared deviations from the mean, summed and divided by
  \<^verbatim>\<open>count - ddof\<close>; NaN when \<^verbatim>\<open>count <= ddof\<close>. The default, which the notebook uses, is
  \<^verbatim>\<open>ddof=1\<close>. \<^verbatim>\<open>Series.std\<close> is its square root.
\<close>

definition pd_var :: "nat \<Rightarrow> float64 list \<Rightarrow> float64" where
  "pd_var ddof xs =
     (let v = dropna xs; count = length v in
      if count \<le> ddof then NaN
      else
        let avg = fdiv (fsum v) (Fin (real count));
            sqr = map (\<lambda>x. fmul (fsub avg x) (fsub avg x)) v
        in fdiv (fsum sqr) (Fin (real (count - ddof))))"

definition pd_std :: "nat \<Rightarrow> float64 list \<Rightarrow> float64" where
  "pd_std ddof xs = fsqrt (pd_var ddof xs)"

text \<open>
  \<^verbatim>\<open>scipy.stats.skew\<close> and \<^verbatim>\<open>scipy.stats.kurtosis\<close> with their defaults \<^verbatim>\<open>bias=True\<close> and
  \<^verbatim>\<open>nan_policy="propagate"\<close>: central moments that divide by the number of values. Both give
  NaN when the second moment is not above \<open>(resolution * mean)\<^sup>2\<close>, the library's test for
  data that are all nearly equal. \<^verbatim>\<open>kurtosis\<close> subtracts 3 under \<^verbatim>\<open>fisher=True\<close>, its default.
\<close>

fun fpow :: "float64 \<Rightarrow> nat \<Rightarrow> float64" where
  "fpow x 0 = Fin 1"
| "fpow x (Suc n) = fmul x (fpow x n)"

text \<open>\<^verbatim>\<open>x ** 1.5\<close>.\<close>

fun fpow15 :: "float64 \<Rightarrow> float64" where
  "fpow15 NaN = NaN"
| "fpow15 (Fin a) = (if a < 0 then NaN else Fin (a * sqrt a))"
| "fpow15 NZero = Fin 0"
| "fpow15 PInf = PInf"
| "fpow15 NInf = NaN"

definition np_mean :: "float64 list \<Rightarrow> float64" where
  "np_mean a = fdiv (fsum a) (Fin (real (length a)))"

definition moment :: "nat \<Rightarrow> float64 list \<Rightarrow> float64" where
  "moment k a = (let mean = np_mean a in np_mean (map (\<lambda>x. fpow (fsub x mean) k) a))"

definition resolution :: real where
  "resolution = 1 / 10 ^ 15"

definition nearly_constant :: "float64 \<Rightarrow> float64 \<Rightarrow> bool" where
  "nearly_constant m2 mean = fle m2 (fpow (fmul (Fin resolution) mean) 2)"

definition skew :: "float64 list \<Rightarrow> float64" where
  "skew a =
     (let mean = np_mean a; m2 = moment 2 a; m3 = moment 3 a in
      if nearly_constant m2 mean then NaN else fdiv m3 (fpow15 m2))"

definition kurtosis :: "bool \<Rightarrow> float64 list \<Rightarrow> float64" where
  "kurtosis fisher a =
     (let mean = np_mean a; m2 = moment 2 a; m4 = moment 4 a;
          vals = (if nearly_constant m2 mean then NaN else fdiv m4 (fpow m2 2))
      in if fisher then fsub vals (Fin 3) else vals)"

record summary_stats =
  Label :: string
  Count :: nat
  Min_stat :: float64
  Max_stat :: float64
  Range_stat :: float64
  Mean :: float64
  Median :: float64
  Variance :: float64
  Std_Dev :: float64
  Skewness :: float64
  Kurtosis :: float64

text \<open>\<^verbatim>\<open>describe_return(group, label)\<close> (\<open>grp\<close> is its \<^verbatim>\<open>group\<close>); the one-row data frame it returns is the record.\<close>

definition describe_return :: "'a return_record_scheme list \<Rightarrow> string \<Rightarrow> summary_stats" where
  "describe_return grp label =
     (let data = dropna (map AnnualReturn grp) in
      \<lparr>Label = label,
       Count = pd_count data,
       Min_stat = pd_min data,
       Max_stat = pd_max data,
       Range_stat = fsub (pd_max data) (pd_min data),
       Mean = pd_mean data,
       Median = pd_median data,
       Variance = pd_var 1 data,
       Std_Dev = pd_std 1 data,
       Skewness = skew data,
       Kurtosis = kurtosis True data\<rparr>)"

subsection \<open>The correlation test\<close>

text \<open>
  \<^verbatim>\<open>scipy.stats.pearsonr(x, y)\<close>. The inputs must have one length, at least 2. A constant
  input gives NaN for both results; two points give the product of the signs and a
  p-value of 1. Otherwise \<open>r\<close> is the dot product of the two centred and normalised
  vectors, clipped to \<open>[-1, 1]\<close>. Nothing in the routine removes a NaN: it travels through
  the mean into every centred value. Releases that take the norm with the finiteness
  check of \<^verbatim>\<open>scipy.linalg.norm\<close> raise \<^verbatim>\<open>ValueError\<close> there; later releases return NaN. The
  flag \<open>check_finite\<close> selects between the two. The p-value of a finite \<open>r\<close> is the tail of
  a beta distribution, computed by the library: the parameter \<open>pvalue\<close>.
\<close>

fun fsign :: "float64 \<Rightarrow> float64" where
  "fsign NaN = NaN"
| "fsign (Fin a) = Fin (sgn a)"
| "fsign NZero = Fin 0"
| "fsign PInf = Fin 1"
| "fsign NInf = Fin (- 1)"

text \<open>\<^verbatim>\<open>max(min(r, 1.0), -1.0)\<close>.\<close>

fun clip1 :: "float64 \<Rightarrow> float64" where
  "clip1 NaN = NaN"
| "clip1 (Fin a) = Fin (max (min a 1) (- 1))"
| "clip1 NZero = NZero"
| "clip1 PInf = Fin 1"
| "clip1 NInf = Fin (- 1)"

fun is_finite :: "float64 \<Rightarrow> bool" where
  "is_finite (Fin a) = True"
| "is_finite NZero = True"
| "is_finite _ = False"

definition norm2 :: "float64 list \<Rightarrow> float64" where
  "norm2 xs = fsqrt (fsum (map (\<lambda>x. fmul x x) xs))"

definition pearsonr ::
    "bool \<Rightarrow> (real \<Rightarrow> nat \<Rightarrow> real) \<Rightarrow> float64 list \<Rightarrow> float64 list \<Rightarrow> py_error + float64 \<times> float64" where
  "pearsonr check_finite pvalue x y =
     (let n = length x in
      if n \<noteq> length y then Inl ValueError
      else if n < 2 then Inl ValueError
      else if list_all (\<lambda>v. feq v (hd x)) x \<or> list_all (\<lambda>v. feq v (hd y)) y then Inr (NaN, NaN)
      else if n = 2 then
        Inr (fmul (fsign (fsub (x ! 1) (x ! 0))) (fsign (fsub (y ! 1) (y ! 0))), Fin 1)
      else
        let xmean = np_mean x; ymean = np_mean y;
            xm = map (\<lambda>v. fsub v xmean) x; ym = map (\<lambda>v. fsub v ymean) y
        in
          if check_finite \<and> \<not> (list_all is_finite xm \<and> list_all is_finite ym) then Inl ValueError
          else
            let normxm = norm2 xm; normym = norm2 ym;
                r = clip1 (fsum (map (\<lambda>(a, b). fmul (fdiv a normxm) (fdiv b normym)) (zip xm ym)))
            in Inr (r, case r of Fin v \<Rightarrow> Fin (pvalue v n) | NZero \<Rightarrow> Fin (pvalue 0 n) | _ \<Rightarrow> NaN))"

text \<open>The last cell: the test on the two cleaned columns, and the verdict it prints.\<close>

definition reject_message :: string where
  "reject_message =
     ''Reject H0: There is a relationship between ESG scores and stock prices (annual return).''"

definition fail_message :: string where
  "fail_message =
     '' Fail to Reject H0: There is no relationship between ESG scores and stock prices (annual return).''"

definition decision :: "float64 \<Rightarrow> string" where
  "decision p_value = (if fle p_value (Fin (5 / 100)) then reject_message else fail_message)"

definition correlation_test ::
    "bool \<Rightarrow> (real \<Rightarrow> nat \<Rightarrow> real) \<Rightarrow> float64 final_row list \<Rightarrow> py_error + float64 \<times> float64 \<times> string" where
  "correlation_test check_finite pvalue df =
     (case pearsonr check_finite pvalue (map final_row.totalEsg df) (map AnnualReturn df) of
        Inl err \<Rightarrow> Inl err
      | Inr (r, p_value) \<Rightarrow> Inr (r, p_value, decision p_value))"

text \<open>
  The specification's correlation step, in its words: the pairs in which either value is
  missing are excluded first.
\<close>

definition complete_pairs :: "float64 final_row list \<Rightarrow> float64 final_row list" where
  "complete_pairs df = filter (\<lambda>r. \<not> isna (final_row.totalEsg r) \<and> \<not> isna (AnnualReturn r)) df"

definition spec_correlation ::
    "bool \<Rightarrow> (real \<Rightarrow> nat \<Rightarrow> real) \<Rightarrow> float64 final_row list \<Rightarrow> py_error + float64 \<times> float64 \<times> string" where
  "spec_correlation check_finite pvalue df = correlation_test check_finite pvalue (complete_pairs df)"

text \<open>
  The textbook formulas the specification names, on real numbers: the sample variance
  divides by \<open>N - 1\<close>; the excess kurtosis is the fourth central moment over the squared
  second, minus 3.
\<close>

definition mean_of :: "real list \<Rightarrow> real" where
  "mean_of xs = sum_list xs / real (length xs)"

definition sample_variance :: "real list \<Rightarrow> real" where
  "sample_variance xs = (\<Sum>x\<leftarrow>xs. (x - mean_of xs)\<^sup>2) / (real (length xs) - 1)"

definition central_moment :: "nat \<Rightarrow> real list \<Rightarrow> real" where
  "central_moment k xs = (\<Sum>x\<leftarrow>xs. (x - mean_of xs) ^ k) / real (length xs)"

definition excess_kurtosis :: "real list \<Rightarrow> real" where
  "excess_kurtosis xs = central_moment 4 xs / (central_moment 2 xs)\<^sup>2 - 3"

text \<open>Example tables for the analyzer: a return table and a cleaned table, each with a missing value.\<close>

definition example_group :: "return_record list" where
  "example_group =
     [\<lparr>Symbol = ''A'', StartPrice = Fin 10, EndPrice = Fin 20, AnnualReturn = Fin 1\<rparr>,
      \<lparr>Symbol = ''B'', StartPrice = NaN, EndPrice = Fin 80, AnnualReturn = NaN\<rparr>,
      \<lparr>Symbol = ''C'', StartPrice = Fin 10, EndPrice = Fin 30, AnnualReturn = Fin 2\<rparr>,
      \<lparr>Symbol = ''D'', StartPrice = Fin 10, EndPrice = Fin 40, AnnualReturn = Fin 3\<rparr>]"

definition missing_esg_table :: "float64 final_row list" where
  "missing_esg_table =
     [\<lparr>Symbol = ''A'', StartPrice = Fin 10, EndPrice = Fin 70, AnnualReturn = Fin 6,
        PriceDifference = Fin 60, totalEsg = Fin 1\<rparr>,
      \<lparr>Symbol = ''B'', StartPrice = Fin 10, EndPrice = Fin 50, AnnualReturn = Fin 4,
        PriceDifference = Fin 40, totalEsg = NaN\<rparr>,
      \<lparr>Symbol = ''C'', StartPrice = Fin 10, EndPrice = Fin 10, AnnualReturn = Fin 0,
        PriceDifference = Fin 0, totalEsg = Fin 1\<rparr>,
      \<lparr>Symbol = ''D'', StartPrice = Fin 10, EndPrice = Fin 10, AnnualReturn = Fin 0,
        PriceDifference = Fin 0, totalEsg = Fin 3\<rparr>,
      \<lparr>Symbol = ''E'', StartPrice = Fin 10, EndPrice = Fin (- 10), AnnualReturn = Fin (- 2),
        PriceDifference = Fin (- 20), totalEsg = Fin 3\<rparr>]"

section \<open>Properties\<close>

subsection \<open>Return calculator\<close>

lemma iloc0_Inr: "iloc0 xs = Inr x \<Longrightarrow> x \<in> set xs"
  by (cases xs) (auto simp: iloc0_def)

lemma return_calculator_Inr:
  assumes "return_calculator df d1 d2 = Inr recs"
  shows "\<exists>sp ep. (d1, sp) \<in> set (rows df) \<and> (d2, ep) \<in> set (rows df) \<and>
           recs = df_returns_of (symbols df) sp ep"
proof -
  from assms obtain r1 r2 where
    r1: "iloc0 (select_date df d1) = Inr r1" and
    r2: "iloc0 (select_date df d2) = Inr r2" and
    recs: "recs = df_returns_of (symbols df) (snd r1) (snd r2)"
    by (auto simp: return_calculator_def split: sum.splits)
  from iloc0_Inr [OF r1] have "(d1, snd r1) \<in> set (rows df)"
    by (auto simp: select_date_def)
  moreover from iloc0_Inr [OF r2] have "(d2, snd r2) \<in> set (rows df)"
    by (auto simp: select_date_def)
  ultimately show ?thesis using recs by blast
qed

lemma df_returns_of_formula:
  "r \<in> set (df_returns_of syms sp ep) \<Longrightarrow>
     AnnualReturn r = fsub (fdiv (EndPrice r) (StartPrice r)) (Fin 1)"
  by (auto simp: df_returns_of_def annual_return_def in_set_zip)

lemma df_returns_of_symbols:
  "length sp = length syms \<Longrightarrow> length ep = length syms \<Longrightarrow>
     map Symbol (df_returns_of syms sp ep) = syms"
  by (auto simp: df_returns_of_def annual_return_def intro!: nth_equalityI)

text \<open>
  Claim C1. For every company the return calculator's \<open>AnnualReturn\<close> is exactly
  \<open>(EndPrice / StartPrice) - 1\<close>: no scaling by 100, no annualisation; every symbol of a
  rectangular price table gets its record. A start price of 150 with an end price of 160
  gives 0.0667 and 800 with 810 gives 0.0125, each within 0.0001.
\<close>

theorem annual_return_two_point:
  assumes "return_calculator df d_start d_end = Inr recs" and "r \<in> set recs"
  shows "AnnualReturn r = fsub (fdiv (EndPrice r) (StartPrice r)) (Fin 1) \<and>
         (\<forall>s e. StartPrice r = Fin s \<and> EndPrice r = Fin e \<and> s \<noteq> 0 \<longrightarrow>
                AnnualReturn r = Fin (e / s - 1)) \<and>
         ((\<forall>row \<in> set (rows df). length (snd row) = length (symbols df)) \<longrightarrow>
            map Symbol recs = symbols df) \<and>
         (annual_return [Fin 160] [Fin 150] = [Fin (160 / 150 - 1)] \<and>
            \<bar>(160 / 150 - 1) - 667 / 10000 :: real\<bar> \<le> 1 / 10000) \<and>
         (annual_return [Fin 810] [Fin 800] = [Fin (810 / 800 - 1)] \<and>
            \<bar>(810 / 800 - 1) - 125 / 10000 :: real\<bar> \<le> 1 / 10000)"
proof -
  from return_calculator_Inr [OF assms(1)] obtain sp ep where
    sp: "(d_start, sp) \<in> set (rows df)" and ep: "(d_end, ep) \<in> set (rows df)" and
    recs: "recs = df_returns_of (symbols df) sp ep"
    by blast
  have a: "AnnualReturn r = fsub (fdiv (EndPrice r) (StartPrice r)) (Fin 1)"
    using assms(2) recs by (simp add: df_returns_of_formula)
  have b: "\<forall>s e. StartPrice r = Fin s \<and> EndPrice r = Fin e \<and> s \<noteq> 0 \<longrightarrow>
                AnnualReturn r = Fin (e / s - 1)"
    using a by (auto simp: fsub_def)
  have c: "(\<forall>row \<in> set (rows df). length (snd row) = length (symbols df)) \<longrightarrow>
            map Symbol recs = symbols df"
  proof
    assume wf: "\<forall>row \<in> set (rows df). length (snd row) = length (symbols df)"
    from wf sp have "length sp = length (symbols df)" by force
    moreover from wf ep have "length ep = length (symbols df)" by force
    ultimately show "map Symbol recs = symbols df"
      using recs by (simp add: df_returns_of_symbols)
  qed
  have d: "annual_return [Fin 160] [Fin 150] = [Fin (160 / 150 - 1)] \<and>
            \<bar>(160 / 150 - 1) - 667 / 10000 :: real\<bar> \<le> 1 / 10000"
    by (simp add: annual_return_def fsub_def)
  have e: "annual_return [Fin 810] [Fin 800] = [Fin (810 / 800 - 1)] \<and>
            \<bar>(810 / 800 - 1) - 125 / 10000 :: real\<bar> \<le> 1 / 10000"
    by (simp add: annual_return_def fsub_def)
  from a b c d e show ?thesis by blast
qed

lemma intro_returns:
  "notebook_returns intro_prices =
     Inr [\<lparr>Symbol = ''AAPL'', StartPrice = Fin 150, EndPrice = Fin 160, AnnualReturn = Fin (1 / 15)\<rparr>,
          \<lparr>Symbol = ''TSLA'', StartPrice = Fin 800, EndPrice = Fin 810, AnnualReturn = Fin (1 / 80)\<rparr>]"
  by (simp add: notebook_returns_def return_calculator_def select_date_def iloc0_def
      intro_prices_def start_date_def end_date_def df_returns_of_def annual_return_def fsub_def)

theorem annual_return_two_point_witness:
  "notebook_returns intro_prices =
     Inr [\<lparr>Symbol = ''AAPL'', StartPrice = Fin 150, EndPrice = Fin 160, AnnualReturn = Fin (1 / 15)\<rparr>,
          \<lparr>Symbol = ''TSLA'', StartPrice = Fin 800, EndPrice = Fin 810, AnnualReturn = Fin (1 / 80)\<rparr>] \<and>
   Fin (1 / 15) = fsub (fdiv (Fin 160) (Fin 150)) (Fin 1) \<and>
   map Symbol
     [\<lparr>Symbol = ''AAPL'', StartPrice = Fin 150, EndPrice = Fin 160, AnnualReturn = Fin (1 / 15)\<rparr>,
      \<lparr>Symbol = ''TSLA'', StartPrice = Fin 800, EndPrice = Fin 810, AnnualReturn = Fin (1 / 80)\<rparr>] =
     symbols intro_prices"
  using intro_returns
    annual_return_two_point [of intro_prices start_date end_date _
      "\<lparr>Symbol = ''AAPL'', StartPrice = Fin 150, EndPrice = Fin 160, AnnualReturn = Fin (1 / 15)\<rparr>"]
  by (simp add: notebook_returns_def intro_prices_def)

text \<open>
  Claim C3. When the start date or the end date is the date of no row of the price table,
  the return calculator fails: \<^verbatim>\<open>.iloc[0]\<close> on the empty selection raises (Python's
  \<^verbatim>\<open>IndexError\<close> is the error the specification calls MissingDateError). When it
  returns, the two rows it used carry exactly the requested dates, so no other row ever
  stands in for a missing one.
\<close>

theorem missing_date_fails:
  "(d_start \<notin> fst ` set (rows df) \<or> d_end \<notin> fst ` set (rows df) \<longrightarrow>
      return_calculator df d_start d_end = Inl IndexError) \<and>
   (\<forall>recs. return_calculator df d_start d_end = Inr recs \<longrightarrow>
      (\<exists>sp ep. (d_start, sp) \<in> set (rows df) \<and> (d_end, ep) \<in> set (rows df) \<and>
         recs = df_returns_of (symbols df) sp ep))"
proof -
  have sel: "select_date df d = [] \<longleftrightarrow> d \<notin> fst ` set (rows df)" for d
    by (auto simp: select_date_def filter_empty_conv image_iff)
  have "return_calculator df d_start d_end = Inl IndexError"
    if "d_start \<notin> fst ` set (rows df) \<or> d_end \<notin> fst ` set (rows df)"
    using that sel [of d_start] sel [of d_end]
    by (auto simp: return_calculator_def iloc0_def split: sum.splits list.splits)
  then show ?thesis using return_calculator_Inr by blast
qed

theorem missing_date_fails_witness:
  "(2023, 1, 5) \<notin> fst ` set (rows intro_prices) \<and>
   (2023, 1, 4) \<in> fst ` set (rows intro_prices) \<and>
   return_calculator intro_prices (2023, 1, 5) end_date = Inl IndexError \<and>
   return_calculator intro_prices start_date (2024, 8, 31) = Inl IndexError"
  using missing_date_fails [of "(2023, 1, 5)" intro_prices end_date]
    missing_date_fails [of start_date intro_prices "(2024, 8, 31)"]
  by (simp add: intro_prices_def)

subsection \<open>Merger and cleaner\<close>

lemma to_numeric_cell_Coerce: "to_numeric_cell parse Coerce c = Inr (coerced parse c)"
  by (simp add: to_numeric_cell_def coerced_def split: cell.splits option.splits)

lemma to_numeric_Coerce: "to_numeric parse Coerce cs = Inr (map (coerced parse) cs)"
  by (induction cs) (simp_all add: to_numeric_cell_Coerce)

lemma zip3_map:
  "map f (zip xs (zip (map g xs) (zip (map h xs) (map k xs)))) = map (\<lambda>x. f (x, g x, h x, k x)) xs"
  by (induction xs) simp_all

lemma clean_eq:
  "clean parse df =
     Inr (map (\<lambda>r. \<lparr>Symbol = Symbol r, StartPrice = StartPrice r, EndPrice = EndPrice r,
                    AnnualReturn = AnnualReturn r, PriceDifference = PriceDifference r,
                    totalEsg = coerced parse (final_row.totalEsg r)\<rparr>) df)"
  by (simp add: clean_def to_numeric_Coerce zip3_map coerced_def comp_def
        to_numeric_Coerce [of parse "map f df" for f, simplified map_map comp_def])

lemma parse_NA: "parse_decimal ''N/A'' = None"
  by (simp add: parse_decimal_def parse_unsigned_def is_digit_def)

lemma parse_172: "parse_decimal ''17.2'' = Some (Fin (172 / 10))"
  by (simp add: parse_decimal_def parse_unsigned_def is_digit_def digits_value_def)

text \<open>
  Claim C4. The coercion with \<^verbatim>\<open>errors="coerce"\<close> returns a float for every cell and the
  cleaning of a table returns a table with as many rows. A string the parser rejects, such
  as "N/A", becomes NaN in \<^verbatim>\<open>totalEsg\<close>, where the strict mode would raise.
\<close>

theorem coercion_never_raises:
  "(\<exists>x. to_numeric_cell parse Coerce c = Inr x) \<and>
   (\<forall>s. parse s = None \<longrightarrow>
      to_numeric_cell parse Coerce (Str s) = Inr NaN \<and>
      to_numeric_cell parse Raise (Str s) = Inl ValueError) \<and>
   (\<exists>out. clean parse df = Inr out \<and> length out = length df \<and>
      (\<forall>i < length df. \<forall>s. final_row.totalEsg (df ! i) = Str s \<and> parse s = None \<longrightarrow>
         final_row.totalEsg (out ! i) = NaN))"
proof -
  have a: "\<exists>x. to_numeric_cell parse Coerce c = Inr x"
    by (simp add: to_numeric_cell_Coerce)
  have b: "\<forall>s. parse s = None \<longrightarrow>
      to_numeric_cell parse Coerce (Str s) = Inr NaN \<and>
      to_numeric_cell parse Raise (Str s) = Inl ValueError"
    by (simp add: to_numeric_cell_def)
  have c: "\<exists>out. clean parse df = Inr out \<and> length out = length df \<and>
      (\<forall>i < length df. \<forall>s. final_row.totalEsg (df ! i) = Str s \<and> parse s = None \<longrightarrow>
         final_row.totalEsg (out ! i) = NaN)"
    by (auto simp: clean_eq coerced_def)
  from a b c show ?thesis by blast
qed

theorem coercion_never_raises_witness:
  "parse_decimal ''N/A'' = None \<and>
   to_numeric_cell parse_decimal Coerce (Str ''N/A'') = Inr NaN \<and>
   to_numeric_cell parse_decimal Raise (Str ''N/A'') = Inl ValueError \<and>
   to_numeric_cell parse_decimal Coerce (Str ''17.2'') = Inr (Fin (172 / 10)) \<and>
   (\<exists>out. clean parse_decimal
       [\<lparr>Symbol = ''TSLA'', StartPrice = Fin 800, EndPrice = Fin 810, AnnualReturn = Fin (1 / 80),
         PriceDifference = Fin 10, totalEsg = Str ''N/A''\<rparr>] = Inr out \<and>
      length out = 1 \<and> final_row.totalEsg (out ! 0) = NaN)"
proof -
  note th = coercion_never_raises [of parse_decimal "Str ''17.2''"
      "[\<lparr>Symbol = ''TSLA'', StartPrice = Fin 800, EndPrice = Fin 810, AnnualReturn = Fin (1 / 80),
         PriceDifference = Fin 10, totalEsg = Str ''N/A''\<rparr>]"]
  from th parse_NA have a: "to_numeric_cell parse_decimal Coerce (Str ''N/A'') = Inr NaN \<and>
      to_numeric_cell parse_decimal Raise (Str ''N/A'') = Inl ValueError"
    by blast
  from th obtain out where out: "clean parse_decimal
       [\<lparr>Symbol = ''TSLA'', StartPrice = Fin 800, EndPrice = Fin 810, AnnualReturn = Fin (1 / 80),
         PriceDifference = Fin 10, totalEsg = Str ''N/A''\<rparr>] = Inr out" "length out = 1"
     and nan: "\<forall>i < 1. \<forall>s. final_row.totalEsg
         ([\<lparr>Symbol = ''TSLA'', StartPrice = Fin 800, EndPrice = Fin 810, AnnualReturn = Fin (1 / 80),
         PriceDifference = Fin 10, totalEsg = Str ''N/A''\<rparr>] ! i) = Str s \<and> parse_decimal s = None \<longrightarrow>
         final_row.totalEsg (out ! i) = NaN"
    by auto
  from nan [rule_format, of 0 "''N/A''"] parse_NA have "final_row.totalEsg (out ! 0) = NaN"
    by simp
  moreover have "to_numeric_cell parse_decimal Coerce (Str ''17.2'') = Inr (Fin (172 / 10))"
    by (simp add: to_numeric_cell_def parse_172)
  ultimately show ?thesis using a out parse_NA by blast
qed

lemma merge_symbols:
  "(\<lambda>(l, r). Symbol l) ` set (merge_on_Symbol left right) = Symbol ` set left \<inter> Symbol ` set right"
  by (auto simp: merge_on_Symbol_def image_iff) force+

lemma merged_symbols:
  "Symbol ` set (df_final_filtered_of (merge_on_Symbol left right)) =
     Symbol ` set left \<inter> Symbol ` set right"
proof -
  have "map Symbol (df_final_filtered_of m) = map (\<lambda>(l, r). Symbol l) m" for m
    by (simp add: df_final_filtered_of_def split_def)
  then have "set (map Symbol (df_final_filtered_of (merge_on_Symbol left right))) =
      set (map (\<lambda>(l, r). Symbol l) (merge_on_Symbol left right))"
    by simp
  then show ?thesis
    using merge_symbols [of left right] by simp
qed

lemma clean_symbols: "clean parse df = Inr out \<Longrightarrow> map Symbol out = map Symbol df"
  by (auto simp: clean_eq)

text \<open>
  Claim C5. The merger/cleaner always returns a table, never an error, and the symbols of
  its rows are exactly the symbols found in both the ESG table and the return table.
\<close>

theorem inner_join_on_symbol:
  "\<exists>out. merger_cleaner parse df_esg df_returns = Inr out \<and>
     Symbol ` set out = Symbol ` set df_esg \<inter> Symbol ` set df_returns"
proof -
  obtain out where out: "merger_cleaner parse df_esg df_returns = Inr out"
    by (simp add: merger_cleaner_def clean_eq)
  then have "map Symbol out = map Symbol (df_final_filtered_of (merge_on_Symbol df_esg df_returns))"
    by (simp add: merger_cleaner_def clean_symbols)
  then have "set (map Symbol out) = set (map Symbol (df_final_filtered_of (merge_on_Symbol df_esg df_returns)))"
    by simp
  then have "Symbol ` set out = Symbol ` set df_esg \<inter> Symbol ` set df_returns"
    by (simp add: merged_symbols)
  with out show ?thesis by blast
qed

lemma example_merged:
  "merger_cleaner parse_decimal example_esg
     [\<lparr>Symbol = ''AAPL'', StartPrice = Fin 150, EndPrice = Fin 160, AnnualReturn = Fin (1 / 15)\<rparr>,
      \<lparr>Symbol = ''TSLA'', StartPrice = Fin 800, EndPrice = Fin 810, AnnualReturn = Fin (1 / 80)\<rparr>,
      \<lparr>Symbol = ''ZERO'', StartPrice = Fin 0, EndPrice = Fin 5, AnnualReturn = PInf\<rparr>] =
   Inr [\<lparr>Symbol = ''AAPL'', StartPrice = Fin 150, EndPrice = Fin 160, AnnualReturn = Fin (1 / 15),
          PriceDifference = Fin 10, totalEsg = Fin (172 / 10)\<rparr>,
        \<lparr>Symbol = ''TSLA'', StartPrice = Fin 800, EndPrice = Fin 810, AnnualReturn = Fin (1 / 80),
          PriceDifference = Fin 10, totalEsg = NaN\<rparr>]"
  by (simp add: merger_cleaner_def clean_eq coerced_def merge_on_Symbol_def df_final_filtered_of_def
      example_esg_def fsub_def parse_NA parse_172)

theorem inner_join_on_symbol_witness:
  "Symbol ` set example_esg = {''AAPL'', ''MSFT'', ''TSLA''} \<and>
   merger_cleaner parse_decimal example_esg
     [\<lparr>Symbol = ''AAPL'', StartPrice = Fin 150, EndPrice = Fin 160, AnnualReturn = Fin (1 / 15)\<rparr>,
      \<lparr>Symbol = ''TSLA'', StartPrice = Fin 800, EndPrice = Fin 810, AnnualReturn = Fin (1 / 80)\<rparr>,
      \<lparr>Symbol = ''ZERO'', StartPrice = Fin 0, EndPrice = Fin 5, AnnualReturn = PInf\<rparr>] =
   Inr [\<lparr>Symbol = ''AAPL'', StartPrice = Fin 150, EndPrice = Fin 160, AnnualReturn = Fin (1 / 15),
          PriceDifference = Fin 10, totalEsg = Fin (172 / 10)\<rparr>,
        \<lparr>Symbol = ''TSLA'', StartPrice = Fin 800, EndPrice = Fin 810, AnnualReturn = Fin (1 / 80),
          PriceDifference = Fin 10, totalEsg = NaN\<rparr>] \<and>
   Symbol ` set example_esg \<inter> {''AAPL'', ''TSLA'', ''ZERO''} = {''AAPL'', ''TSLA''}"
  using inner_join_on_symbol [of parse_decimal example_esg
     "[\<lparr>Symbol = ''AAPL'', StartPrice = Fin 150, EndPrice = Fin 160, AnnualReturn = Fin (1 / 15)\<rparr>,
      \<lparr>Symbol = ''TSLA'', StartPrice = Fin 800, EndPrice = Fin 810, AnnualReturn = Fin (1 / 80)\<rparr>,
      \<lparr>Symbol = ''ZERO'', StartPrice = Fin 0, EndPrice = Fin 5, AnnualReturn = PInf\<rparr>]"]
    example_merged
  by (auto simp: example_esg_def)

text \<open>
  Claim C10. Cleaning leaves the \<^verbatim>\<open>Symbol\<close>, \<^verbatim>\<open>StartPrice\<close> and \<^verbatim>\<open>EndPrice\<close> columns as they were
  after the join and the projection, row by row.
\<close>

theorem coercion_frame:
  assumes "clean parse df = Inr out"
  shows "map Symbol out = map Symbol df \<and> map StartPrice out = map StartPrice df \<and>
         map EndPrice out = map EndPrice df"
  using assms by (auto simp: clean_eq)

theorem coercion_frame_witness:
  "clean parse_decimal
     [\<lparr>Symbol = ''TSLA'', StartPrice = Fin 800, EndPrice = Fin 810, AnnualReturn = Fin (1 / 80),
       PriceDifference = Fin 10, totalEsg = Str ''N/A''\<rparr>] =
   Inr [\<lparr>Symbol = ''TSLA'', StartPrice = Fin 800, EndPrice = Fin 810, AnnualReturn = Fin (1 / 80),
       PriceDifference = Fin 10, totalEsg = NaN\<rparr>] \<and>
   map Symbol [\<lparr>Symbol = ''TSLA'', StartPrice = Fin 800, EndPrice = Fin 810, AnnualReturn = Fin (1 / 80),
       PriceDifference = Fin 10, totalEsg = NaN\<rparr>] = [''TSLA'']"
  using coercion_frame [of parse_decimal
     "[\<lparr>Symbol = ''TSLA'', StartPrice = Fin 800, EndPrice = Fin 810, AnnualReturn = Fin (1 / 80),
       PriceDifference = Fin 10, totalEsg = Str ''N/A''\<rparr>]"]
  by (simp add: clean_eq coerced_def parse_NA)

lemma example_returns:
  "notebook_returns example_prices =
     Inr [\<lparr>Symbol = ''AAPL'', StartPrice = Fin 150, EndPrice = Fin 160, AnnualReturn = Fin (1 / 15)\<rparr>,
          \<lparr>Symbol = ''TSLA'', StartPrice = Fin 800, EndPrice = Fin 810, AnnualReturn = Fin (1 / 80)\<rparr>,
          \<lparr>Symbol = ''ZERO'', StartPrice = Fin 0, EndPrice = Fin 5, AnnualReturn = PInf\<rparr>]"
  by (simp add: notebook_returns_def return_calculator_def select_date_def iloc0_def
      example_prices_def start_date_def end_date_def df_returns_of_def annual_return_def fsub_def)

lemma pipeline_rows:
  assumes "pipeline parse df_esg df_prices = Inr out" and "r \<in> set out"
  shows "\<exists>recs rr. notebook_returns df_prices = Inr recs \<and> rr \<in> set recs \<and>
           StartPrice r = StartPrice rr \<and> EndPrice r = EndPrice rr \<and>
           AnnualReturn r = AnnualReturn rr"
proof -
  from assms(1) obtain recs where recs: "notebook_returns df_prices = Inr recs"
    and out: "merger_cleaner parse df_esg recs = Inr out"
    by (auto simp: pipeline_def split: sum.splits)
  from out assms(2) obtain l rr where "(l, rr) \<in> set (merge_on_Symbol df_esg recs)"
    and "StartPrice r = StartPrice rr" "EndPrice r = EndPrice rr" "AnnualReturn r = AnnualReturn rr"
    by (auto simp: merger_cleaner_def clean_eq df_final_filtered_of_def)
  moreover from this have "rr \<in> set recs"
    by (auto simp: merge_on_Symbol_def)
  ultimately show ?thesis using recs by blast
qed

lemma return_calculator_succeeds:
  "(\<exists>recs. return_calculator df d1 d2 = Inr recs) \<longleftrightarrow>
     d1 \<in> fst ` set (rows df) \<and> d2 \<in> fst ` set (rows df)"
proof -
  have sel: "select_date df d = [] \<longleftrightarrow> d \<notin> fst ` set (rows df)" for d
    by (auto simp: select_date_def filter_empty_conv image_iff)
  show ?thesis
    using sel [of d1] sel [of d2]
    by (auto simp: return_calculator_def iloc0_def split: sum.splits list.splits)
qed

lemma pipeline_succeeds:
  "(\<exists>out. pipeline parse df_esg df_prices = Inr out) \<longleftrightarrow>
     start_date \<in> fst ` set (rows df_prices) \<and> end_date \<in> fst ` set (rows df_prices)"
proof -
  have "(\<exists>out. pipeline parse df_esg df_prices = Inr out) = (\<exists>recs. notebook_returns df_prices = Inr recs)"
    by (cases "notebook_returns df_prices") (simp_all add: pipeline_def merger_cleaner_def clean_eq)
  then show ?thesis
    by (simp add: notebook_returns_def return_calculator_succeeds)
qed

text \<open>
  Claim C6 as stated fails: a start price of zero with an end price of 5 gives
  \<^verbatim>\<open>AnnualReturn = inf\<close>, which the coercion keeps and which is not missing.
\<close>

theorem zero_start_price_not_missing:
  "pipeline parse_decimal zero_esg example_prices =
     Inr [\<lparr>Symbol = ''ZERO'', StartPrice = Fin 0, EndPrice = Fin 5, AnnualReturn = PInf,
           PriceDifference = Fin 5, totalEsg = Fin 20\<rparr>] \<and>
   \<not> isna PInf"
  by (simp add: pipeline_def example_returns merger_cleaner_def clean_eq coerced_def
      merge_on_Symbol_def df_final_filtered_of_def zero_esg_def fsub_def isna_def)

text \<open>
  Claim C6, amended. With a start price of exactly zero, \<^verbatim>\<open>0.0\<close> or \<^verbatim>\<open>-0.0\<close>, the return
  calculator and the merger/cleaner raise nothing: the cells up to the cleaned table fail
  only when one of the two dates is absent. The cleaned \<^verbatim>\<open>AnnualReturn\<close> is missing exactly
  when the end price is a zero or missing; otherwise it is an infinity, positive when the
  end price and the zero have the same sign and negative when they differ, a value that
  is not missing and that \<^verbatim>\<open>dropna\<close> keeps for the statistics.
\<close>

theorem zero_start_price_return:
  assumes "pipeline parse df_esg df_prices = Inr out" and "r \<in> set out"
    and "StartPrice r = Fin 0 \<or> StartPrice r = NZero"
  shows "(isna (AnnualReturn r) \<longleftrightarrow>
            EndPrice r = Fin 0 \<or> EndPrice r = NZero \<or> EndPrice r = NaN) \<and>
         (\<not> isna (AnnualReturn r) \<longrightarrow>
            AnnualReturn r = (if signbit (EndPrice r) = signbit (StartPrice r) then PInf else NInf) \<and>
            AnnualReturn r \<in> set (dropna (map AnnualReturn out))) \<and>
         ((\<exists>out'. pipeline parse df_esg df_prices = Inr out') \<longleftrightarrow>
            start_date \<in> fst ` set (rows df_prices) \<and> end_date \<in> fst ` set (rows df_prices))"
proof -
  from pipeline_rows [OF assms(1,2)] obtain recs rr where
    recs: "notebook_returns df_prices = Inr recs" and rr: "rr \<in> set recs" and
    eqs: "StartPrice r = StartPrice rr" "EndPrice r = EndPrice rr" "AnnualReturn r = AnnualReturn rr"
    by blast
  from return_calculator_Inr [OF recs [unfolded notebook_returns_def]] rr
  have "AnnualReturn rr = fsub (fdiv (EndPrice rr) (StartPrice rr)) (Fin 1)"
    by (auto simp: df_returns_of_formula)
  with eqs have ar: "AnnualReturn r = fsub (fdiv (EndPrice r) (StartPrice r)) (Fin 1)"
    by simp
  have a: "isna (AnnualReturn r) \<longleftrightarrow>
            EndPrice r = Fin 0 \<or> EndPrice r = NZero \<or> EndPrice r = NaN"
    unfolding ar using assms(3)
    by (cases "EndPrice r") (auto simp: isna_def fsub_def split: if_splits)
  have b: "AnnualReturn r = (if signbit (EndPrice r) = signbit (StartPrice r) then PInf else NInf)"
    if "\<not> isna (AnnualReturn r)"
    using that assms(3) unfolding ar
    by (cases "EndPrice r") (auto simp: isna_def fsub_def split: if_splits)
  have c: "AnnualReturn r \<in> set (dropna (map AnnualReturn out))"
    if "\<not> isna (AnnualReturn r)"
    using that assms(2) by (simp add: dropna_def)
  from a b c pipeline_succeeds show ?thesis by blast
qed

lemma signed_zero_returns:
  "notebook_returns signed_zero_prices =
     Inr [\<lparr>Symbol = ''ZERO'', StartPrice = Fin 0, EndPrice = Fin 5, AnnualReturn = PInf\<rparr>,
          \<lparr>Symbol = ''NEGZ'', StartPrice = NZero, EndPrice = Fin 5, AnnualReturn = NInf\<rparr>]"
  by (simp add: notebook_returns_def return_calculator_def select_date_def iloc0_def
      signed_zero_prices_def start_date_def end_date_def df_returns_of_def annual_return_def fsub_def)

lemma signed_zero_pipeline:
  "pipeline parse_decimal signed_zero_esg signed_zero_prices =
     Inr [\<lparr>Symbol = ''ZERO'', StartPrice = Fin 0, EndPrice = Fin 5, AnnualReturn = PInf,
           PriceDifference = Fin 5, totalEsg = Fin 20\<rparr>,
          \<lparr>Symbol = ''NEGZ'', StartPrice = NZero, EndPrice = Fin 5, AnnualReturn = NInf,
           PriceDifference = Fin 5, totalEsg = Fin 30\<rparr>]"
  by (simp add: pipeline_def signed_zero_returns merger_cleaner_def clean_eq coerced_def
      merge_on_Symbol_def df_final_filtered_of_def signed_zero_esg_def fsub_def)

theorem zero_start_price_return_witness:
  "pipeline parse_decimal signed_zero_esg signed_zero_prices =
     Inr [\<lparr>Symbol = ''ZERO'', StartPrice = Fin 0, EndPrice = Fin 5, AnnualReturn = PInf,
           PriceDifference = Fin 5, totalEsg = Fin 20\<rparr>,
          \<lparr>Symbol = ''NEGZ'', StartPrice = NZero, EndPrice = Fin 5, AnnualReturn = NInf,
           PriceDifference = Fin 5, totalEsg = Fin 30\<rparr>] \<and>
   \<not> isna PInf \<and> \<not> isna NInf \<and>
   PInf = (if signbit (Fin 5) = signbit (Fin 0) then PInf else NInf) \<and>
   NInf = (if signbit (Fin 5) = signbit NZero then PInf else NInf) \<and>
   dropna [PInf, NInf] = [PInf, NInf] \<and>
   start_date \<in> fst ` set (rows signed_zero_prices) \<and>
   end_date \<in> fst ` set (rows signed_zero_prices)"
  using signed_zero_pipeline
    zero_start_price_return [of parse_decimal signed_zero_esg signed_zero_prices _
      "\<lparr>Symbol = ''ZERO'', StartPrice = Fin 0, EndPrice = Fin 5, AnnualReturn = PInf,
           PriceDifference = Fin 5, totalEsg = Fin 20\<rparr>"]
    zero_start_price_return [of parse_decimal signed_zero_esg signed_zero_prices _
      "\<lparr>Symbol = ''NEGZ'', StartPrice = NZero, EndPrice = Fin 5, AnnualReturn = NInf,
           PriceDifference = Fin 5, totalEsg = Fin 30\<rparr>"]
  by (simp add: isna_def dropna_def signed_zero_prices_def start_date_def end_date_def)

subsection \<open>Analyzer\<close>

lemma messages_differ: "reject_message \<noteq> fail_message"
  by (simp add: reject_message_def fail_message_def)

text \<open>
  Claim C7. The verdict is the reject message exactly when \<^verbatim>\<open>p_value <= 0.05\<close> holds and
  the fail-to-reject message otherwise (so also for a NaN p-value, which compares false);
  0.05 is a literal of the cell, and the verdict the test returns is the one of its p-value.
\<close>

theorem decision_rule:
  "(decision p = reject_message \<longleftrightarrow> fle p (Fin (5 / 100))) \<and>
   (decision p = fail_message \<longleftrightarrow> \<not> fle p (Fin (5 / 100))) \<and>
   (\<forall>x. decision (Fin x) = reject_message \<longleftrightarrow> x \<le> 5 / 100) \<and>
   decision NaN = fail_message \<and>
   (\<forall>chk pvalue df r p' verdict.
      correlation_test chk pvalue df = Inr (r, p', verdict) \<longrightarrow> verdict = decision p')"
  using messages_differ
  by (auto simp: decision_def correlation_test_def split: sum.splits)

theorem decision_rule_witness:
  "decision (Fin (5 / 100)) = reject_message \<and> decision (Fin (1411 / 10000)) = fail_message \<and>
   decision (Fin (3 / 100)) = reject_message"
  using decision_rule [of "Fin (5 / 100)"] decision_rule [of "Fin (1411 / 10000)"]
    decision_rule [of "Fin (3 / 100)"]
  by simp

lemma dropna_idem: "dropna (dropna xs) = dropna xs"
  by (simp add: dropna_def)

lemma dropna_filter_rows:
  "dropna (map AnnualReturn (filter (\<lambda>r. \<not> isna (AnnualReturn r)) g)) = dropna (map AnnualReturn g)"
  by (induction g) (simp_all add: dropna_def)

lemma length_dropna_rows:
  "length (dropna (map AnnualReturn g)) = length (filter (\<lambda>r. \<not> isna (AnnualReturn r)) g)"
  by (induction g) (simp_all add: dropna_def)

text \<open>
  Claim C8. \<^verbatim>\<open>Count\<close> is the number of rows whose \<^verbatim>\<open>AnnualReturn\<close> is not missing, at most the
  number of rows. Every statistic is computed on the list of non-missing values: the
  summary of a table is the summary of its rows with a return, and two tables with the
  same non-missing returns have the same summary.
\<close>

theorem summary_over_non_missing:
  fixes g :: "'a return_record_scheme list" and g' :: "'b return_record_scheme list"
  shows
  "Count (describe_return g l) = length (filter (\<lambda>r. \<not> isna (AnnualReturn r)) g) \<and>
   Count (describe_return g l) \<le> length g \<and>
   describe_return g l = describe_return (filter (\<lambda>r. \<not> isna (AnnualReturn r)) g) l \<and>
   (dropna (map AnnualReturn g') = dropna (map AnnualReturn g) \<longrightarrow>
      describe_return g' l = describe_return g l) \<and>
   (let data = dropna (map AnnualReturn g); s = describe_return g l in
      NaN \<notin> set data \<and>
      Min_stat s = pd_min data \<and> Max_stat s = pd_max data \<and>
      Range_stat s = fsub (Max_stat s) (Min_stat s) \<and>
      Mean s = pd_mean data \<and> Median s = pd_median data \<and>
      Variance s = pd_var 1 data \<and> Std_Dev s = pd_std 1 data \<and>
      Skewness s = skew data \<and> Kurtosis s = kurtosis True data)"
proof -
  have a: "Count (describe_return g l) = length (filter (\<lambda>r. \<not> isna (AnnualReturn r)) g)"
    by (simp add: describe_return_def Let_def pd_count_def dropna_idem length_dropna_rows)
  have b: "Count (describe_return g l) \<le> length g"
    unfolding a by simp
  have c: "describe_return g l = describe_return (filter (\<lambda>r. \<not> isna (AnnualReturn r)) g) l"
    by (simp add: describe_return_def dropna_filter_rows)
  have d: "dropna (map AnnualReturn g') = dropna (map AnnualReturn g) \<longrightarrow>
      describe_return g' l = describe_return g l"
    by (simp add: describe_return_def)
  have e: "let data = dropna (map AnnualReturn g); s = describe_return g l in
      NaN \<notin> set data \<and>
      Min_stat s = pd_min data \<and> Max_stat s = pd_max data \<and>
      Range_stat s = fsub (Max_stat s) (Min_stat s) \<and>
      Mean s = pd_mean data \<and> Median s = pd_median data \<and>
      Variance s = pd_var 1 data \<and> Std_Dev s = pd_std 1 data \<and>
      Skewness s = skew data \<and> Kurtosis s = kurtosis True data"
    by (simp add: describe_return_def Let_def) (simp add: dropna_def isna_def)
  from a b c d e show ?thesis by blast
qed

theorem summary_over_non_missing_witness:
  "Count (describe_return example_group ''Annual Return Statics'') = 3 \<and>
   length example_group = 4 \<and>
   describe_return example_group ''Annual Return Statics'' =
     describe_return
       [\<lparr>Symbol = ''A'', StartPrice = Fin 10, EndPrice = Fin 20, AnnualReturn = Fin 1\<rparr>,
        \<lparr>Symbol = ''C'', StartPrice = Fin 10, EndPrice = Fin 30, AnnualReturn = Fin 2\<rparr>,
        \<lparr>Symbol = ''D'', StartPrice = Fin 10, EndPrice = Fin 40, AnnualReturn = Fin 3\<rparr>]
       ''Annual Return Statics''"
proof -
  have f: "filter (\<lambda>r. \<not> isna (AnnualReturn r)) example_group =
       [\<lparr>Symbol = ''A'', StartPrice = Fin 10, EndPrice = Fin 20, AnnualReturn = Fin 1\<rparr>,
        \<lparr>Symbol = ''C'', StartPrice = Fin 10, EndPrice = Fin 30, AnnualReturn = Fin 2\<rparr>,
        \<lparr>Symbol = ''D'', StartPrice = Fin 10, EndPrice = Fin 40, AnnualReturn = Fin 3\<rparr>]"
    by (simp add: example_group_def isna_def)
  note th = summary_over_non_missing [of example_group "''Annual Return Statics''" example_group]
  from th have c: "Count (describe_return example_group ''Annual Return Statics'') =
      length (filter (\<lambda>r. \<not> isna (AnnualReturn r)) example_group)"
    by blast
  from th have d: "describe_return example_group ''Annual Return Statics'' =
      describe_return (filter (\<lambda>r. \<not> isna (AnnualReturn r)) example_group) ''Annual Return Statics''"
    by blast
  have l: "length example_group = 4"
    by (simp add: example_group_def)
  from c d l show ?thesis
    unfolding f by simp
qed

lemma foldl_fadd_Fin: "foldl fadd (Fin a) (map Fin xs) = Fin (a + sum_list xs)"
  by (induction xs arbitrary: a) (simp_all add: add.assoc)

lemma fsum_Fin: "fsum (map Fin xs) = Fin (sum_list xs)"
  by (simp add: fsum_def foldl_fadd_Fin)

lemma dropna_Fin: "dropna (map Fin xs) = map Fin xs"
  by (induction xs) (simp_all add: dropna_def isna_def)

lemma fsub_Fin: "fsub (Fin a) (Fin b) = Fin (a - b)"
  by (simp add: fsub_def)

lemma fdiv_Fin_pos: "0 < b \<Longrightarrow> fdiv (Fin a) (Fin b) = Fin (a / b)"
  by simp

lemma fmul_Fin_pos: "0 < a \<Longrightarrow> fmul (Fin a) (Fin b) = Fin (a * b)"
  by auto

lemma fmul_Fin_power: "fmul (Fin a) (Fin (a ^ k)) = Fin (a * a ^ k)"
  by (cases "a = 0") simp_all

lemma fpow_Fin: "fpow (Fin a) k = Fin (a ^ k)"
  by (induction k) (simp_all add: fmul_Fin_power del: fmul.simps)

lemma nearly_constant_Fin:
  "nearly_constant (Fin m2) (Fin m) = (m2 \<le> (resolution * m)\<^sup>2)"
proof -
  have "0 < resolution"
    by (simp add: resolution_def)
  then show ?thesis
    by (simp add: nearly_constant_def fmul_Fin_pos fpow_Fin del: fmul.simps fpow.simps)
qed

lemma np_mean_Fin: "xs \<noteq> [] \<Longrightarrow> np_mean (map Fin xs) = Fin (mean_of xs)"
  by (simp add: np_mean_def fsum_Fin mean_of_def)

lemma map_fpow_Fin:
  "map (\<lambda>x. fpow (fsub x (Fin m)) k) (map Fin xs) = map Fin (map (\<lambda>x. (x - m) ^ k) xs)"
  by (induction xs) (simp_all add: fsub_def fpow_Fin)

lemma moment_Fin:
  assumes "xs \<noteq> []"
  shows "moment k (map Fin xs) = Fin (central_moment k xs)"
proof -
  have "moment k (map Fin xs) = np_mean (map (\<lambda>x. fpow (fsub x (Fin (mean_of xs))) k) (map Fin xs))"
    by (simp only: moment_def Let_def np_mean_Fin [OF assms])
  also have "\<dots> = np_mean (map Fin (map (\<lambda>x. (x - mean_of xs) ^ k) xs))"
    by (simp only: map_fpow_Fin)
  also have "\<dots> = Fin (mean_of (map (\<lambda>x. (x - mean_of xs) ^ k) xs))"
    using assms by (intro np_mean_Fin) simp
  also have "\<dots> = Fin (central_moment k xs)"
    by (simp add: mean_of_def central_moment_def)
  finally show ?thesis .
qed

lemma map_sq_Fin:
  "map (\<lambda>x. fmul (fsub (Fin m) x) (fsub (Fin m) x)) (map Fin xs) =
     map Fin (map (\<lambda>x. (x - m)\<^sup>2) xs)"
  by (induction xs) (simp_all add: fsub_def power2_eq_square algebra_simps)

lemma pd_var_Fin:
  assumes "2 \<le> length xs"
  shows "pd_var 1 (map Fin xs) = Fin (sample_variance xs)"
proof -
  from assms have ne: "xs \<noteq> []" by auto
  have len: "real (length xs - 1) = real (length xs) - 1"
    using assms by (simp add: of_nat_diff)
  have avg: "fdiv (fsum (map Fin xs)) (Fin (real (length xs))) = Fin (mean_of xs)"
    using ne by (simp add: fsum_Fin mean_of_def)
  have "pd_var 1 (map Fin xs) =
      fdiv (fsum (map (\<lambda>x. fmul (fsub (Fin (mean_of xs)) x) (fsub (Fin (mean_of xs)) x)) (map Fin xs)))
        (Fin (real (length xs - 1)))"
    using assms by (simp add: pd_var_def dropna_Fin Let_def avg del: map_map)
  also have "\<dots> = fdiv (Fin (\<Sum>x\<leftarrow>xs. (x - mean_of xs)\<^sup>2)) (Fin (real (length xs) - 1))"
    by (simp only: map_sq_Fin fsum_Fin len)
  also have "\<dots> = Fin (sample_variance xs)"
    using assms by (simp add: sample_variance_def fdiv_Fin_pos del: fdiv.simps)
  finally show ?thesis .
qed

lemma sample_variance_nonneg: "2 \<le> length xs \<Longrightarrow> 0 \<le> sample_variance xs"
  by (auto simp: sample_variance_def intro!: divide_nonneg_nonneg sum_list_nonneg)

lemma kurtosis_Fin:
  assumes "xs \<noteq> []"
  shows "kurtosis True (map Fin xs) =
     (if central_moment 2 xs \<le> (resolution * mean_of xs)\<^sup>2 then NaN
      else Fin (excess_kurtosis xs))"
proof (cases "central_moment 2 xs \<le> (resolution * mean_of xs)\<^sup>2")
  case True
  with assms show ?thesis
    by (simp add: kurtosis_def Let_def moment_Fin np_mean_Fin nearly_constant_Fin fsub_def)
next
  case False
  moreover have "0 \<le> (resolution * mean_of xs)\<^sup>2"
    by simp
  ultimately have pos: "0 < central_moment 2 xs"
    by linarith
  then have "0 < (central_moment 2 xs)\<^sup>2"
    by simp
  then have "fdiv (Fin (central_moment 4 xs)) (Fin ((central_moment 2 xs)\<^sup>2)) =
      Fin (central_moment 4 xs / (central_moment 2 xs)\<^sup>2)"
    by (rule fdiv_Fin_pos)
  with False assms show ?thesis
    by (simp add: kurtosis_def Let_def moment_Fin np_mean_Fin nearly_constant_Fin fpow_Fin
        fsub_Fin excess_kurtosis_def del: fdiv.simps fpow.simps)
qed

lemma pd_var_single:
  "pd_var 1 [x] =
     fdiv (fsum (map (\<lambda>y. fmul (fsub (pd_mean [x]) y) (fsub (pd_mean [x]) y)) [x])) (Fin 0)"
  by (cases x) (simp_all add: pd_var_def pd_mean_def dropna_def isna_def fsum_def fsub_def)

lemma pd_var_general:
  assumes "NaN \<notin> set data" and "data \<noteq> []"
  shows "pd_var 1 data =
     fdiv (fsum (map (\<lambda>x. fmul (fsub (pd_mean data) x) (fsub (pd_mean data) x)) data))
       (Fin (real (length data) - 1))"
proof (cases "length data \<le> 1")
  case True
  with assms(2) obtain x where "data = [x]"
    by (cases data) auto
  then show ?thesis using pd_var_single [of x] by simp
next
  case False
  from assms(1) have dn: "dropna data = data"
    by (induction data) (auto simp: dropna_def isna_def)
  from False have "real (length data - Suc 0) = real (length data) - 1"
    by (simp add: of_nat_diff)
  with False show ?thesis
    by (simp add: pd_var_def Let_def dn pd_mean_def)
qed

lemma kurtosis_excess: "kurtosis True a = fsub (kurtosis False a) (Fin 3)"
  by (simp add: kurtosis_def Let_def)

text \<open>
  Claim C9. For every non-empty list of non-missing returns, \<^verbatim>\<open>Variance\<close> is the sum of the
  squared deviations from the mean divided by \<open>N - 1\<close>, \<^verbatim>\<open>Std Dev\<close> is its square root and
  \<^verbatim>\<open>Kurtosis\<close> is the raw kurtosis minus 3. On finite data with at least two values these
  are the sample variance, its root, and the excess kurtosis (NaN when the data are
  nearly constant).
\<close>

theorem sample_variance_excess_kurtosis:
  assumes "data = dropna (map AnnualReturn g)" and "data \<noteq> []" and "s = describe_return g l"
  shows "Variance s =
           fdiv (fsum (map (\<lambda>x. fmul (fsub (Mean s) x) (fsub (Mean s) x)) data))
             (Fin (real (length data) - 1)) \<and>
         Std_Dev s = fsqrt (Variance s) \<and>
         Kurtosis s = fsub (kurtosis False data) (Fin 3) \<and>
         (\<forall>xs. data = map Fin xs \<and> 2 \<le> length xs \<longrightarrow>
            Variance s = Fin (sample_variance xs) \<and>
            Std_Dev s = Fin (sqrt (sample_variance xs)) \<and>
            Kurtosis s =
              (if central_moment 2 xs \<le> (resolution * mean_of xs)\<^sup>2 then NaN
               else Fin (excess_kurtosis xs)))"
proof -
  have nn: "NaN \<notin> set data"
    using assms(1) by (simp add: dropna_def isna_def)
  have flds: "Variance s = pd_var 1 data" "Std_Dev s = pd_std 1 data"
    "Kurtosis s = kurtosis True data" "Mean s = pd_mean data"
    using assms(1,3) by (simp_all add: describe_return_def Let_def)
  have a: "Variance s =
           fdiv (fsum (map (\<lambda>x. fmul (fsub (Mean s) x) (fsub (Mean s) x)) data))
             (Fin (real (length data) - 1))"
    unfolding flds using pd_var_general [OF nn assms(2)] .
  have b: "Std_Dev s = fsqrt (Variance s)"
    unfolding flds by (simp add: pd_std_def)
  have c: "Kurtosis s = fsub (kurtosis False data) (Fin 3)"
    unfolding flds by (rule kurtosis_excess)
  have d: "Variance s = Fin (sample_variance xs) \<and>
            Std_Dev s = Fin (sqrt (sample_variance xs)) \<and>
            Kurtosis s =
              (if central_moment 2 xs \<le> (resolution * mean_of xs)\<^sup>2 then NaN
               else Fin (excess_kurtosis xs))"
    if "data = map Fin xs \<and> 2 \<le> length xs" for xs
  proof -
    from that have xs: "data = map Fin xs" and len: "2 \<le> length xs" by simp_all
    from len have ne: "xs \<noteq> []" by auto
    have v: "Variance s = Fin (sample_variance xs)"
      unfolding flds xs by (rule pd_var_Fin [OF len])
    have sd: "Std_Dev s = Fin (sqrt (sample_variance xs))"
      unfolding b v using sample_variance_nonneg [OF len] by simp
    have k: "Kurtosis s =
              (if central_moment 2 xs \<le> (resolution * mean_of xs)\<^sup>2 then NaN
               else Fin (excess_kurtosis xs))"
      unfolding flds xs by (rule kurtosis_Fin [OF ne])
    from v sd k show ?thesis by blast
  qed
  from a b c d show ?thesis by blast
qed

theorem sample_variance_excess_kurtosis_witness:
  "dropna (map AnnualReturn example_group) = map Fin [1, 2, 3] \<and>
   Variance (describe_return example_group ''Annual Return Statics'') = Fin 1 \<and>
   Std_Dev (describe_return example_group ''Annual Return Statics'') = Fin 1 \<and>
   Kurtosis (describe_return example_group ''Annual Return Statics'') = Fin (- 3 / 2)"
proof -
  have data: "map Fin [1, 2, 3] = dropna (map AnnualReturn example_group)"
    by (simp add: example_group_def dropna_def isna_def)
  have ne: "map Fin [1, 2, 3 :: real] \<noteq> []"
    by simp
  have sv: "sample_variance [1, 2, 3] = 1"
    by (simp add: sample_variance_def mean_of_def)
  have m2: "central_moment 2 [1, 2, 3] = 2 / 3"
    by (simp add: central_moment_def mean_of_def)
  have ek: "excess_kurtosis [1, 2, 3] = - 3 / 2"
    by (simp add: excess_kurtosis_def central_moment_def mean_of_def power2_eq_square)
  have nc: "\<not> central_moment 2 [1, 2, 3] \<le> (resolution * mean_of [1, 2, 3])\<^sup>2"
    by (simp add: m2 resolution_def mean_of_def power2_eq_square)
  note th = sample_variance_excess_kurtosis [OF data ne refl, of "''Annual Return Statics''"]
  from th have "\<forall>xs. map Fin [1, 2, 3] = map Fin xs \<and> 2 \<le> length xs \<longrightarrow>
            Variance (describe_return example_group ''Annual Return Statics'') = Fin (sample_variance xs) \<and>
            Std_Dev (describe_return example_group ''Annual Return Statics'') = Fin (sqrt (sample_variance xs)) \<and>
            Kurtosis (describe_return example_group ''Annual Return Statics'') =
              (if central_moment 2 xs \<le> (resolution * mean_of xs)\<^sup>2 then NaN
               else Fin (excess_kurtosis xs))"
    by blast
  from this [rule_format, of "[1, 2, 3]"]
  have "Variance (describe_return example_group ''Annual Return Statics'') = Fin (sample_variance [1, 2, 3]) \<and>
        Std_Dev (describe_return example_group ''Annual Return Statics'') = Fin (sqrt (sample_variance [1, 2, 3])) \<and>
        Kurtosis (describe_return example_group ''Annual Return Statics'') =
          (if central_moment 2 [1, 2, 3] \<le> (resolution * mean_of [1, 2, 3])\<^sup>2 then NaN
           else Fin (excess_kurtosis [1, 2, 3]))"
    by simp
  with data sv ek nc show ?thesis by simp
qed

lemma foldl_fadd_NaN: "foldl fadd NaN xs = NaN"
  by (induction xs) simp_all

lemma fadd_NaN_right: "fadd a NaN = NaN"
  by (cases a) simp_all

lemma fmul_NaN_right: "fmul a NaN = NaN"
  by (cases a) simp_all

lemma foldl_fadd_has_NaN: "NaN \<in> set xs \<Longrightarrow> foldl fadd a xs = NaN"
  by (induction xs arbitrary: a) (auto simp: fadd_NaN_right foldl_fadd_NaN)

lemma fsum_has_NaN: "NaN \<in> set xs \<Longrightarrow> fsum xs = NaN"
  by (simp add: fsum_def foldl_fadd_has_NaN)

lemma np_mean_has_NaN: "NaN \<in> set xs \<Longrightarrow> np_mean xs = NaN"
  by (simp add: np_mean_def fsum_has_NaN)

lemma fsub_NaN_right: "fsub a NaN = NaN"
  by (simp add: fsub_def fadd_NaN_right)

lemma decision_NaN: "decision NaN = fail_message"
  by (simp add: decision_def)

lemma decision_one: "decision (Fin 1) = fail_message"
  by (simp add: decision_def)

lemma pearsonr_has_NaN:
  assumes "NaN \<in> set x \<or> NaN \<in> set y"
  shows "pearsonr chk pvalue x y \<in> {Inl ValueError, Inr (NaN, NaN), Inr (NaN, Fin 1)}"
proof -
  consider (len) "length x \<noteq> length y \<or> length x < 2"
    | (const) "length x = length y" "2 \<le> length x"
        "list_all (\<lambda>v. feq v (hd x)) x \<or> list_all (\<lambda>v. feq v (hd y)) y"
    | (two) "length x = length y" "length x = 2"
        "\<not> (list_all (\<lambda>v. feq v (hd x)) x \<or> list_all (\<lambda>v. feq v (hd y)) y)"
    | (many) "length x = length y" "3 \<le> length x"
        "\<not> (list_all (\<lambda>v. feq v (hd x)) x \<or> list_all (\<lambda>v. feq v (hd y)) y)"
    by linarith
  then show ?thesis
  proof cases
    case len
    then show ?thesis by (auto simp: pearsonr_def Let_def)
  next
    case const
    then show ?thesis by (auto simp: pearsonr_def Let_def)
  next
    case two
    from two(1,2) obtain x0 x1 y0 y1 where xy: "x = [x0, x1]" "y = [y0, y1]"
      by (cases x; cases y; cases "tl x"; cases "tl y") auto
    from assms xy have "fsub x1 x0 = NaN \<or> fsub y1 y0 = NaN"
      by (auto simp: fsub_def fadd_NaN_right)
    then have "fmul (fsign (fsub x1 x0)) (fsign (fsub y1 y0)) = NaN"
      by (auto simp: fmul_NaN_right)
    with two xy show ?thesis by (simp add: pearsonr_def Let_def)
  next
    case many
    define xm where "xm = map (\<lambda>v. fsub v (np_mean x)) x"
    define ym where "ym = map (\<lambda>v. fsub v (np_mean y)) y"
    have lens: "length xm = length x" "length ym = length x" "x \<noteq> []"
      using many by (auto simp: xm_def ym_def)
    have allnan: "(\<forall>a \<in> set xm. a = NaN) \<or> (\<forall>b \<in> set ym. b = NaN)"
      using assms by (auto simp: xm_def ym_def np_mean_has_NaN fsub_NaN_right)
    then have notfin: "\<not> (list_all is_finite xm \<and> list_all is_finite ym)"
      using lens by (cases xm; cases ym) (auto simp: list_all_iff)
    have terms: "t = NaN"
      if "t \<in> set (map (\<lambda>(a, b). fmul (fdiv a nx) (fdiv b ny)) (zip xm ym))" for t nx ny
    proof -
      from that obtain a b where ab: "a \<in> set xm" "b \<in> set ym"
        and t: "t = fmul (fdiv a nx) (fdiv b ny)"
        by (auto dest: set_zip_leftD set_zip_rightD)
      from allnan ab have "a = NaN \<or> b = NaN" by auto
      with t show ?thesis by (auto simp: fmul_NaN_right)
    qed
    have "map (\<lambda>(a, b). fmul (fdiv a nx) (fdiv b ny)) (zip xm ym) \<noteq> []" for nx ny
      using lens by (cases xm; cases ym) auto
    then have "NaN \<in> set (map (\<lambda>(a, b). fmul (fdiv a nx) (fdiv b ny)) (zip xm ym))" for nx ny
      using terms [of _ nx ny]
      by (metis last_in_set)
    then have r: "fsum (map (\<lambda>(a, b). fmul (fdiv a nx) (fdiv b ny)) (zip xm ym)) = NaN" for nx ny
      by (rule fsum_has_NaN)
    show ?thesis
    proof (cases chk)
      case True
      with many notfin show ?thesis
        by (simp add: pearsonr_def Let_def xm_def [symmetric] ym_def [symmetric])
    next
      case False
      with many show ?thesis
        by (simp add: pearsonr_def Let_def xm_def [symmetric] ym_def [symmetric] r)
    qed
  qed
qed

text \<open>
  Claim C2. The specification has the correlation computed after the pairs with a missing
  value are removed. The cell passes the two cleaned columns whole to \<^verbatim>\<open>pearsonr\<close>: as soon
  as one row misses its score or its return, the test raises \<^verbatim>\<open>ValueError\<close> or returns NaN
  for \<open>r\<close> and prints the fail-to-reject verdict, whatever the complete pairs say.
\<close>

theorem correlation_keeps_missing_pairs:
  assumes "row \<in> set df" and "isna (final_row.totalEsg row) \<or> isna (AnnualReturn row)"
  shows "correlation_test chk pvalue df \<in>
           {Inl ValueError, Inr (NaN, NaN, fail_message), Inr (NaN, Fin 1, fail_message)}"
proof -
  from assms have "NaN \<in> set (map final_row.totalEsg df) \<or> NaN \<in> set (map AnnualReturn df)"
    by (auto simp: isna_def intro: rev_image_eqI)
  from pearsonr_has_NaN [OF this, of chk pvalue] show ?thesis
    by (auto simp: correlation_test_def decision_NaN decision_one)
qed

lemma sqrt_36: "sqrt 36 = 6"
  using real_sqrt_abs [of 6] by simp

lemma spec_on_table:
  "spec_correlation chk pvalue missing_esg_table =
     Inr (Fin (- 2 / 3), Fin (pvalue (- 2 / 3) 4), decision (Fin (pvalue (- 2 / 3) 4)))"
  by (simp add: spec_correlation_def complete_pairs_def missing_esg_table_def isna_def
      correlation_test_def pearsonr_def Let_def feq_def np_mean_def fsum_def fsub_def norm2_def
      sqrt_36)
    (simp add: eval_nat_numeral)

lemma code_on_table_new: "correlation_test False pvalue missing_esg_table = Inr (NaN, NaN, fail_message)"
  by (simp add: missing_esg_table_def isna_def
      correlation_test_def pearsonr_def Let_def feq_def np_mean_def fsum_def fsub_def norm2_def
      decision_def)

lemma code_on_table_old: "correlation_test True pvalue missing_esg_table = Inl ValueError"
  by (simp add: missing_esg_table_def isna_def
      correlation_test_def pearsonr_def Let_def feq_def np_mean_def fsum_def fsub_def norm2_def
      decision_def)

theorem correlation_keeps_missing_pairs_witness:
  "\<forall>pvalue.
     correlation_test False pvalue missing_esg_table = Inr (NaN, NaN, fail_message) \<and>
     correlation_test True pvalue missing_esg_table = Inl ValueError \<and>
     spec_correlation False pvalue missing_esg_table =
       Inr (Fin (- 2 / 3), Fin (pvalue (- 2 / 3) 4), decision (Fin (pvalue (- 2 / 3) 4)))"
  using correlation_keeps_missing_pairs [of
      "\<lparr>Symbol = ''B'', StartPrice = Fin 10, EndPrice = Fin 50, AnnualReturn = Fin 4,
        PriceDifference = Fin 40, totalEsg = NaN\<rparr>" missing_esg_table False]
    code_on_table_new code_on_table_old spec_on_table
  by simp

end
